theory Spec2Isabelle
  imports Main "HOL-Library.Sublist"
begin

text \<open>
  A shallow embedding of \<open>multi-tool-agent/agent.py\<close>: the three tools
  (\<open>get_weather\<close>, \<open>say_hello\<close>, \<open>say_goodbye\<close>), the loop of
  \<open>call_agent_async\<close> over the events of one turn, and \<open>create_session_and_runner\<close>.
  The agents are declarations that the language model reads; the choice between a tool and
  a sub-agent is made by that model and has no code in the file.
\<close>

section \<open>Python strings\<close>

text \<open>
  A Python \<open>str\<close> is a sequence of Unicode code points. Literals of the source that are
  not ASCII are written with their code points; \<open>ascii\<close> turns an ASCII literal into
  its code points.
\<close>

type_synonym codepoint = nat
type_synonym str = "codepoint list"

definition ascii :: "string \<Rightarrow> str" where
  "ascii s = map of_char s"

text \<open>
  \<open>s.replace(old, new)\<close> for a pattern \<open>old\<close> of one character: every occurrence of
  the character is replaced by \<open>new\<close>.
\<close>

definition str_replace_char :: "codepoint \<Rightarrow> str \<Rightarrow> str \<Rightarrow> str" where
  "str_replace_char old new s = concat (map (\<lambda>c. if c = old then new else [c]) s)"

text \<open>
  \<open>str.lower\<close> is the Unicode case mapping of the Python runtime, not code of the
  repository; the functions that call it take it as the parameter \<open>str_lower\<close>, and every
  theorem below holds for any such function. To run examples, \<open>latin_lower\<close> is the
  mapping on the letters of Basic Latin, Latin-1 Supplement and U+1EA0..U+1EFF (the
  Vietnamese letters of Latin Extended Additional), where \<open>str.lower\<close> maps each code
  point to one code point; it leaves every other code point unchanged.
\<close>

definition latin_lower_cp :: "codepoint \<Rightarrow> codepoint" where
  "latin_lower_cp c =
     (if 0x41 \<le> c \<and> c \<le> 0x5A then c + 32
      else if 0xC0 \<le> c \<and> c \<le> 0xDE \<and> c \<noteq> 0xD7 then c + 32
      else if 0x1EA0 \<le> c \<and> c \<le> 0x1EFF \<and> even c then c + 1
      else c)"

definition latin_lower :: "str \<Rightarrow> str" where
  "latin_lower s = map latin_lower_cp s"

section \<open>Tools\<close>

subsection \<open>\<open>get_weather\<close>\<close>

text \<open>
  A \<open>dict\<close> literal is an association list in the order of the source; \<open>map_of\<close> is the
  lookup \<open>d[k]\<close>, and \<open>k in d\<close> is \<open>map_of d k \<noteq> None\<close>.
\<close>

type_synonym ('k, 'v) dict = "('k \<times> 'v) list"

definition mock_weather_db :: "(str, (str, str) dict) dict" where
  "mock_weather_db =
     [(ascii ''hanoi'',
         [(ascii ''status'', ascii ''success''),
          (ascii ''report'',
             [0x2600, 0xFE0F] @ ascii '' H'' @ [0xE0] @ ascii '' N'' @ [0x1ED9] @ ascii ''i: N''
             @ [0x1EAF] @ ascii ''ng '' @ [0x111, 0x1EB9] @ ascii ''p, 25'' @ [0xB0] @ ascii ''C'')]),
      (ascii ''h'' @ [0xE0] @ ascii ''n'' @ [0x1ED9] @ ascii ''i'',
         [(ascii ''status'', ascii ''success''),
          (ascii ''report'',
             [0x2600, 0xFE0F] @ ascii '' H'' @ [0xE0] @ ascii '' N'' @ [0x1ED9] @ ascii ''i: N''
             @ [0x1EAF] @ ascii ''ng '' @ [0x111, 0x1EB9] @ ascii ''p, 25'' @ [0xB0] @ ascii ''C'')]),
      (ascii ''london'',
         [(ascii ''status'', ascii ''success''),
          (ascii ''report'',
             [0x2601, 0xFE0F] @ ascii '' London: Nhi'' @ [0x1EC1] @ ascii ''u m'' @ [0xE2]
             @ ascii ''y, 15'' @ [0xB0] @ ascii ''C'')]),
      (ascii ''tokyo'',
         [(ascii ''status'', ascii ''success''),
          (ascii ''report'',
             [0x1F327, 0xFE0F] @ ascii '' Tokyo: M'' @ [0x1B0] @ ascii ''a nh'' @ [0x1EB9]
             @ ascii '', 18'' @ [0xB0] @ ascii ''C'')])]"

text \<open>The local \<open>city_normalized = city.lower().replace(" ", "")\<close>.\<close>

definition city_normalized :: "(str \<Rightarrow> str) \<Rightarrow> str \<Rightarrow> str" where
  "city_normalized str_lower city = str_replace_char 0x20 [] (str_lower city)"

definition get_weather :: "(str \<Rightarrow> str) \<Rightarrow> str \<Rightarrow> (str, str) dict" where
  "get_weather str_lower city =
     (case map_of mock_weather_db (city_normalized str_lower city) of
        Some entry \<Rightarrow> entry
      | None \<Rightarrow>
          [(ascii ''status'', ascii ''error''),
           (ascii ''error_message'',
              ascii ''Xin l'' @ [0x1ED7] @ ascii ''i, kh'' @ [0xF4] @ ascii ''ng c'' @ [0xF3]
              @ ascii '' th'' @ [0xF4] @ ascii ''ng tin th'' @ [0x1EDD] @ ascii ''i ti'' @ [0x1EBF]
              @ ascii ''t cho '' @ [0x27] @ city @ [0x27] @ ascii ''.'')])"

subsection \<open>\<open>say_hello\<close> and \<open>say_goodbye\<close>\<close>

text \<open>
  \<open>name: Optional[str] = None\<close>; the test \<open>if name\<close> is false for \<open>None\<close> and for
  the empty string, and both take the \<open>else\<close> branch.
\<close>

definition say_hello :: "str option \<Rightarrow> str" where
  "say_hello name =
     (case name of
        Some n \<Rightarrow>
          if n \<noteq> [] then [0x1F44B] @ ascii '' Xin ch'' @ [0xE0] @ ascii ''o, '' @ n @ ascii ''!''
          else [0x1F44B] @ ascii '' Xin ch'' @ [0xE0] @ ascii ''o!''
      | None \<Rightarrow> [0x1F44B] @ ascii '' Xin ch'' @ [0xE0] @ ascii ''o!'')"

definition say_goodbye :: str where
  "say_goodbye =
     [0x1F44B] @ ascii '' T'' @ [0x1EA1] @ ascii ''m bi'' @ [0x1EC7] @ ascii ''t! Ch'' @ [0xFA]
     @ ascii ''c b'' @ [0x1EA1] @ ascii ''n m'' @ [0x1ED9] @ ascii ''t ng'' @ [0xE0]
     @ ascii ''y t'' @ [0x1ED1] @ ascii ''t l'' @ [0xE0] @ ascii ''nh! '' @ [0x2728]"

section \<open>One turn: \<open>call_agent_async\<close>\<close>

subsection \<open>Events\<close>

text \<open>
  The attributes of \<open>google.genai.types.Part\<close>, \<open>types.Content\<close> and of the event of
  \<open>google.adk\<close> that \<open>call_agent_async\<close> reads. Each of them is optional in those
  libraries. \<open>is_final_response()\<close> is a method of the library's event; its result is
  taken as an attribute of the event.
\<close>

record Part =
  "text" :: "str option"

record Content =
  role :: "str option"
  parts :: "Part list option"

record EventActions =
  escalate :: "bool option"

record Event =
  is_final_response :: bool
  content :: "Content option"
  actions :: "EventActions option"
  error_message :: "str option"

text \<open>
  The list that the test \<open>event.content and event.content.parts\<close> looks at: the test is
  true exactly when this list is not empty (an absent content, absent parts and an empty list
  of parts are all false).
\<close>

definition content_parts :: "Event \<Rightarrow> Part list" where
  "content_parts event =
     (case content event of
        None \<Rightarrow> []
      | Some c \<Rightarrow> (case parts c of None \<Rightarrow> [] | Some ps \<Rightarrow> ps))"

text \<open>The test \<open>event.actions and event.actions.escalate\<close>.\<close>

definition actions_escalate :: "Event \<Rightarrow> bool" where
  "actions_escalate event =
     (case actions event of None \<Rightarrow> False | Some a \<Rightarrow> escalate a = Some True)"

text \<open>
  The body of \<open>if event.is_final_response():\<close>, as the value of \<open>final_response_text\<close>
  after it. The value is \<open>None\<close> when the first part has no text.
\<close>

definition on_final_response :: "Event \<Rightarrow> str option \<Rightarrow> str option" where
  "on_final_response event final_response_text =
     (case content_parts event of
        p # _ \<Rightarrow> text p
      | [] \<Rightarrow>
          if actions_escalate event
          then Some ([0x26A0, 0xFE0F] @ ascii '' Agent escalated: ''
                     @ (case error_message event of
                          None \<Rightarrow> ascii ''Kh'' @ [0xF4] @ ascii ''ng c'' @ [0xF3] @ ascii '' message.''
                        | Some m \<Rightarrow>
                            if m \<noteq> [] then m
                            else ascii ''Kh'' @ [0xF4] @ ascii ''ng c'' @ [0xF3] @ ascii '' message.''))
          else final_response_text)"

subsection \<open>The loop over the events\<close>

text \<open>
  \<open>runner.run_async(...)\<close> is an asynchronous generator of the library. It is a state
  \<open>gen\<close> with a function \<open>anext\<close>: \<open>anext gen = Some (event, gen')\<close> when the generator
  yields \<open>event\<close> and goes on as \<open>gen'\<close>, and \<open>anext gen = None\<close> when it is exhausted.
  The loop returns the text and the generator as it leaves it. The generator may yield
  events that are not final for ever, so the loop is a partial function: \<open>None\<close> is a
  call that does not return.
\<close>

partial_function (option) call_agent_async_loop ::
  "('g \<Rightarrow> (Event \<times> 'g) option) \<Rightarrow> 'g \<Rightarrow> str option \<Rightarrow> (str option \<times> 'g) option" where
  "call_agent_async_loop anext gen final_response_text =
     (case anext gen of
        None \<Rightarrow> Some (final_response_text, gen)
      | Some (event, gen') \<Rightarrow>
          if is_final_response event
          then Some (on_final_response event final_response_text, gen')
          else call_agent_async_loop anext gen' final_response_text)"

text \<open>
  The method \<open>run_async\<close> of the runner and the generator's \<open>anext\<close> are code of the
  library; they are the first two parameters. \<open>user_content query\<close> is the local
  \<open>content = types.Content(role='user', parts=[types.Part(text=query)])\<close>.
\<close>

definition user_content :: "str \<Rightarrow> Content" where
  "user_content query = \<lparr>role = Some (ascii ''user''), parts = Some [\<lparr>text = Some query\<rparr>]\<rparr>"

definition call_agent_async ::
  "('runner \<Rightarrow> str \<Rightarrow> str \<Rightarrow> Content \<Rightarrow> 'g) \<Rightarrow> ('g \<Rightarrow> (Event \<times> 'g) option) \<Rightarrow>
   str \<Rightarrow> 'runner \<Rightarrow> str \<Rightarrow> str \<Rightarrow> (str option \<times> 'g) option" where
  "call_agent_async run_async anext query runner user_id session_id =
     (let final_response_text =
            Some ([0x26A0, 0xFE0F] @ ascii '' Agent kh'' @ [0xF4] @ ascii ''ng t'' @ [0x1EA1]
                  @ ascii ''o ra response.'')
      in call_agent_async_loop anext (run_async runner user_id session_id (user_content query))
           final_response_text)"

text \<open>
  \<open>pulls anext gen events = Some gen'\<close>: asked \<open>length events\<close> times, the generator in
  state \<open>gen\<close> yields exactly \<open>events\<close> and is then in state \<open>gen'\<close>.
\<close>

fun pulls :: "('g \<Rightarrow> ('a \<times> 'g) option) \<Rightarrow> 'g \<Rightarrow> 'a list \<Rightarrow> 'g option" where
  "pulls anext gen [] = Some gen"
| "pulls anext gen (x # xs) =
     (case anext gen of
        None \<Rightarrow> None
      | Some (y, gen') \<Rightarrow> if y = x then pulls anext gen' xs else None)"

text \<open>
  A generator that yields the elements of a list, and a runner whose \<open>run_async\<close> yields
  a given list of events whatever the message: the simplest instances of the parameters.
\<close>

definition list_anext :: "'a list \<Rightarrow> ('a \<times> 'a list) option" where
  "list_anext xs = (case xs of [] \<Rightarrow> None | x # rest \<Rightarrow> Some (x, rest))"

definition list_run_async :: "Event list \<Rightarrow> str \<Rightarrow> str \<Rightarrow> Content \<Rightarrow> Event list" where
  "list_run_async events user_id session_id new_message = events"

section \<open>Sessions\<close>

text \<open>
  The session, its store and the runner are objects of \<open>google.adk\<close>; the repository
  holds no code of them, only the calls in \<open>create_session_and_runner\<close> and
  \<open>call_agent_async\<close>. What the claims say about them is settled on a model that
  follows the specification.
\<close>

text \<open>
  Modelled from the spec: the role of a message (section 3, \<open>role: enum{user, agent}\<close>);
  the message type is not in the repository.
\<close>

datatype Role = UserRole | AgentRole

text \<open>
  Modelled from the spec: the message of section 3, a role and a text; the message type is
  not in the repository.
\<close>

datatype Message = Message (role_of: Role) (text_of: str)

text \<open>
  Modelled from the spec: the session of section 3, its identity (application, user,
  session id) and the ordered history of its messages; the session type is not in the
  repository.
\<close>

record Session =
  applicationName :: str
  userId :: str
  sessionId :: str
  history :: "Message list"

text \<open>
  Modelled from the spec: the session store, the class \<open>InMemorySessionService\<close> that is
  not in the repository. After section 4.4 it is a mapping from the identity to the
  session, and a new store is empty.
\<close>

type_synonym SessionStore = "str \<times> str \<times> str \<rightharpoonup> Session"

definition InMemorySessionService :: SessionStore where
  "InMemorySessionService = Map.empty"

text \<open>
  Modelled from the spec: the method \<open>create_session\<close> of the store, which is not in the
  repository. After section 4.4, it returns the session of the identity when the store
  holds one, with the store as it is (the same handle and state), and otherwise it adds a
  session with an empty history and returns it.
\<close>

definition create_session :: "SessionStore \<Rightarrow> str \<Rightarrow> str \<Rightarrow> str \<Rightarrow> Session \<times> SessionStore" where
  "create_session store app_name user_id session_id =
     (case store (app_name, user_id, session_id) of
        Some existing \<Rightarrow> (existing, store)
      | None \<Rightarrow>
          (let created = \<lparr>applicationName = app_name, userId = user_id, sessionId = session_id,
                          history = []\<rparr>
           in (created, store((app_name, user_id, session_id) \<mapsto> created))))"

text \<open>
  \<open>create_session_and_runner\<close> of the source: it makes a new store, creates the session
  in it and builds the runner. An argument that is left out is \<open>None\<close> and takes the
  default of the signature. \<open>Runner(agent=..., app_name=..., session_service=...)\<close> is
  the record of its three arguments.
\<close>

record 'a Runner =
  runner_agent :: 'a
  runner_app_name :: str
  runner_session_service :: SessionStore

definition create_session_and_runner ::
  "'a \<Rightarrow> str option \<Rightarrow> str option \<Rightarrow> str option \<Rightarrow> SessionStore \<times> 'a Runner \<times> str \<times> str" where
  "create_session_and_runner agent app_name user_id session_id =
     (let app_name = (case app_name of None \<Rightarrow> ascii ''Weather Agent Demo'' | Some a \<Rightarrow> a);
          user_id = (case user_id of None \<Rightarrow> ascii ''user_1'' | Some u \<Rightarrow> u);
          session_id = (case session_id of None \<Rightarrow> ascii ''session_001'' | Some i \<Rightarrow> i);
          session_service = InMemorySessionService;
          (session, session_service) = create_session session_service app_name user_id session_id;
          runner = \<lparr>runner_agent = agent, runner_app_name = app_name,
                    runner_session_service = session_service\<rparr>
      in (session_service, runner, user_id, session_id))"

section \<open>The runner of the specification\<close>

text \<open>
  Modelled from the spec: the event of section 3, as the reasoning engine emits it:
  intermediate, final with a message, or escalated with an optional error message. The
  engine is external to the repository.
\<close>

datatype SpecEvent = Intermediate | Final Message | Escalated "str option"

text \<open>
  Modelled from the spec: the event of \<open>google.adk\<close> that stands for each kind of event
  of section 3, since \<open>call_agent_async\<close> reads events of the library, whose code is not
  in the repository. An intermediate event is not a final response; a final event is a
  final response whose content has one part with the text of its message; an escalated
  event is a final response without content, with the escalate action and the optional
  error message.
\<close>

fun to_event :: "SpecEvent \<Rightarrow> Event" where
  "to_event Intermediate =
     \<lparr>is_final_response = False, content = None, actions = None, error_message = None\<rparr>"
| "to_event (Final m) =
     \<lparr>is_final_response = True,
      content = Some \<lparr>role = None, parts = Some [\<lparr>text = Some (text_of m)\<rparr>]\<rparr>,
      actions = None, error_message = None\<rparr>"
| "to_event (Escalated error) =
     \<lparr>is_final_response = True, content = None,
      actions = Some \<lparr>escalate = Some True\<rparr>, error_message = error\<rparr>"

text \<open>
  Modelled from the spec: the state of one turn inside \<open>Runner.run_async\<close>, which is not
  in the repository: the session that the runner works on and the state of the reasoning
  engine (section 6: the engine is given the agent, the session and the message).
\<close>

record 'e Turn =
  session :: Session
  engine :: 'e

text \<open>
  Modelled from the spec: the utterance of step 1 of section 4.3, read from the content
  that the caller hands to \<open>Runner.run_async\<close> (not in the repository): the text of its
  first part.
\<close>

definition utterance :: "Content \<Rightarrow> str" where
  "utterance new_message =
     (case parts new_message of
        Some (p # _) \<Rightarrow> (case text p of Some t \<Rightarrow> t | None \<Rightarrow> [])
      | _ \<Rightarrow> [])"

text \<open>
  Modelled from the spec: the start of \<open>Runner.run_async\<close>, which is not in the
  repository, after steps 1 and 2 of section 4.3: the message of role user with the
  utterance is appended to the history of the session before the reasoning begins, and the
  engine is started (\<open>startTurn\<close> of section 6, a parameter) on the agent, the session and
  the message.
\<close>

definition spec_run_async ::
  "('a \<Rightarrow> Session \<Rightarrow> Message \<Rightarrow> 'e) \<Rightarrow> 'a \<Rightarrow> Session \<Rightarrow> str \<Rightarrow> str \<Rightarrow> Content \<Rightarrow> 'e Turn" where
  "spec_run_async startTurn agent sess user_id session_id new_message =
     (let m = Message UserRole (utterance new_message);
          sess' = sess\<lparr>history := history sess @ [m]\<rparr>
      in \<lparr>session = sess', engine = startTurn agent sess' m\<rparr>)"

text \<open>
  Modelled from the spec: one step of the generator of \<open>Runner.run_async\<close>, which is not
  in the repository, after steps 2 and 3 of section 4.3: the next event is asked of the
  engine (\<open>next_event\<close>, a parameter), one at a time; on a final event a message of role
  agent with the text of the event's content is appended to the history; an intermediate
  and an escalated event append nothing; the event is handed to the caller.
\<close>

definition spec_anext :: "('e \<Rightarrow> (SpecEvent \<times> 'e) option) \<Rightarrow> 'e Turn \<Rightarrow> (Event \<times> 'e Turn) option" where
  "spec_anext next_event turn =
     (case next_event (engine turn) of
        None \<Rightarrow> None
      | Some (ev, e') \<Rightarrow>
          Some (to_event ev,
                \<lparr>session =
                   (case ev of
                      Final m \<Rightarrow>
                        (session turn)\<lparr>history := history (session turn)
                                                   @ [Message AgentRole (text_of m)]\<rparr>
                    | _ \<Rightarrow> session turn),
                 engine = e'\<rparr>))"

text \<open>
  An engine that emits the events of a list, to evaluate a turn: it is started on the
  list whatever the agent, the session and the message.
\<close>

definition list_startTurn :: "SpecEvent list \<Rightarrow> unit \<Rightarrow> Session \<Rightarrow> Message \<Rightarrow> SpecEvent list" where
  "list_startTurn events agent sess m = events"

text \<open>Two events to evaluate the loop on.\<close>

definition escalation_with_content :: Event where
  "escalation_with_content =
     \<lparr>is_final_response = True,
      content = Some \<lparr>role = Some (ascii ''model''), parts = Some [\<lparr>text = Some (ascii ''Done'')\<rparr>]\<rparr>,
      actions = Some \<lparr>escalate = Some True\<rparr>,
      error_message = Some (ascii ''internal timeout'')\<rparr>"

definition final_without_text :: Event where
  "final_without_text =
     \<lparr>is_final_response = True,
      content = Some \<lparr>role = Some (ascii ''model''), parts = Some [\<lparr>text = None\<rparr>]\<rparr>,
      actions = Some \<lparr>escalate = None\<rparr>,
      error_message = None\<rparr>"

section \<open>Properties of the tools\<close>

lemma mock_weather_db_keys:
  "map_of mock_weather_db k \<noteq> None \<longleftrightarrow>
     k \<in> {ascii ''hanoi'', ascii ''h'' @ [0xE0] @ ascii ''n'' @ [0x1ED9] @ ascii ''i'',
          ascii ''london'', ascii ''tokyo''}"
  by (simp add: mock_weather_db_def ascii_def)

lemma mock_weather_db_entry:
  assumes "map_of mock_weather_db k = Some entry"
  shows "map_of entry (ascii ''status'') = Some (ascii ''success'')"
    and "\<exists>report. map_of entry (ascii ''report'') = Some report \<and> report \<noteq> []"
    and "map_of entry (ascii ''error_message'') = None"
  using assms by (auto simp: mock_weather_db_def ascii_def split: if_splits)

lemma error_record_lookup:
  "map_of [(ascii ''status'', ascii ''error''), (ascii ''error_message'', message)]
     (ascii ''status'') = Some (ascii ''error'')"
  "map_of [(ascii ''status'', ascii ''error''), (ascii ''error_message'', message)]
     (ascii ''error_message'') = Some message"
  "map_of [(ascii ''status'', ascii ''error''), (ascii ''error_message'', message)]
     (ascii ''report'') = None"
  by (simp_all add: ascii_def)

text \<open>
  C1. When the lower-cased city without its spaces is one of the four keys of the table,
  \<open>get_weather\<close> returns a record whose status is \<open>success\<close> with a non-empty report
  and no error message; otherwise it returns a record whose status is \<open>error\<close> with a
  non-empty error message that contains the city as it was given. The function is total:
  a failure is a returned record.
\<close>

theorem get_weather_success_or_failure:
  "(city_normalized str_lower city \<in>
      {ascii ''hanoi'', ascii ''h'' @ [0xE0] @ ascii ''n'' @ [0x1ED9] @ ascii ''i'',
       ascii ''london'', ascii ''tokyo''} \<longrightarrow>
      map_of (get_weather str_lower city) (ascii ''status'') = Some (ascii ''success'') \<and>
      (\<exists>report. map_of (get_weather str_lower city) (ascii ''report'') = Some report \<and>
                report \<noteq> []) \<and>
      map_of (get_weather str_lower city) (ascii ''error_message'') = None) \<and>
   (city_normalized str_lower city \<notin>
      {ascii ''hanoi'', ascii ''h'' @ [0xE0] @ ascii ''n'' @ [0x1ED9] @ ascii ''i'',
       ascii ''london'', ascii ''tokyo''} \<longrightarrow>
      map_of (get_weather str_lower city) (ascii ''status'') = Some (ascii ''error'') \<and>
      (\<exists>message. map_of (get_weather str_lower city) (ascii ''error_message'') = Some message \<and>
                 message \<noteq> [] \<and> sublist city message) \<and>
      map_of (get_weather str_lower city) (ascii ''report'') = None)"
proof (cases "map_of mock_weather_db (city_normalized str_lower city)")
  case None
  then have unknown: "city_normalized str_lower city \<notin>
      {ascii ''hanoi'', ascii ''h'' @ [0xE0] @ ascii ''n'' @ [0x1ED9] @ ascii ''i'',
       ascii ''london'', ascii ''tokyo''}"
    using mock_weather_db_keys [of "city_normalized str_lower city"] by simp
  define pre :: str where "pre = ascii ''Xin l'' @ [0x1ED7] @ ascii ''i, kh'' @ [0xF4]
      @ ascii ''ng c'' @ [0xF3] @ ascii '' th'' @ [0xF4] @ ascii ''ng tin th'' @ [0x1EDD]
      @ ascii ''i ti'' @ [0x1EBF] @ ascii ''t cho '' @ [0x27]"
  define post :: str where "post = [0x27] @ ascii ''.''"
  have result: "get_weather str_lower city =
      [(ascii ''status'', ascii ''error''), (ascii ''error_message'', pre @ city @ post)]"
    using None by (simp add: get_weather_def pre_def post_def)
  have "pre \<noteq> []"
    by (simp add: pre_def ascii_def)
  then have nonempty: "pre @ city @ post \<noteq> []"
    by simp
  have mentions: "sublist city (pre @ city @ post)"
    by (rule sublist_appendI)
  have "map_of (get_weather str_lower city) (ascii ''status'') = Some (ascii ''error'')"
    and "map_of (get_weather str_lower city) (ascii ''error_message'') = Some (pre @ city @ post)"
    and "map_of (get_weather str_lower city) (ascii ''report'') = None"
    by (simp_all only: result error_record_lookup)
  with unknown nonempty mentions show ?thesis
    by blast
next
  case (Some entry)
  then have known: "city_normalized str_lower city \<in>
      {ascii ''hanoi'', ascii ''h'' @ [0xE0] @ ascii ''n'' @ [0x1ED9] @ ascii ''i'',
       ascii ''london'', ascii ''tokyo''}"
    using mock_weather_db_keys [of "city_normalized str_lower city"] by simp
  have "get_weather str_lower city = entry"
    using Some by (simp add: get_weather_def)
  with known mock_weather_db_entry [OF Some] show ?thesis
    by simp
qed

theorem get_weather_success_or_failure_witness:
  "city_normalized latin_lower (ascii ''Tokyo'') = ascii ''tokyo'' \<and>
   map_of (get_weather latin_lower (ascii ''Tokyo'')) (ascii ''status'') = Some (ascii ''success'') \<and>
   (\<exists>report. map_of (get_weather latin_lower (ascii ''Tokyo'')) (ascii ''report'') = Some report \<and>
             report \<noteq> [] \<and> sublist (ascii ''Tokyo'') report) \<and>
   city_normalized latin_lower (ascii ''Atlantis'') = ascii ''atlantis'' \<and>
   map_of (get_weather latin_lower (ascii ''Atlantis'')) (ascii ''status'') = Some (ascii ''error'') \<and>
   (\<exists>message. map_of (get_weather latin_lower (ascii ''Atlantis'')) (ascii ''error_message'') =
                Some message \<and>
              message \<noteq> [] \<and> sublist (ascii ''Atlantis'') message)"
proof -
  have tokyo: "city_normalized latin_lower (ascii ''Tokyo'') = ascii ''tokyo''"
    by (simp add: city_normalized_def latin_lower_def latin_lower_cp_def str_replace_char_def
        ascii_def)
  have atlantis: "city_normalized latin_lower (ascii ''Atlantis'') = ascii ''atlantis''"
    by (simp add: city_normalized_def latin_lower_def latin_lower_cp_def str_replace_char_def
        ascii_def)
  have known: "city_normalized latin_lower (ascii ''Tokyo'') \<in>
      {ascii ''hanoi'', ascii ''h'' @ [0xE0] @ ascii ''n'' @ [0x1ED9] @ ascii ''i'',
       ascii ''london'', ascii ''tokyo''}"
    by (simp add: tokyo)
  have unknown: "city_normalized latin_lower (ascii ''Atlantis'') \<notin>
      {ascii ''hanoi'', ascii ''h'' @ [0xE0] @ ascii ''n'' @ [0x1ED9] @ ascii ''i'',
       ascii ''london'', ascii ''tokyo''}"
    unfolding atlantis by (simp add: ascii_def)
  have report: "map_of (get_weather latin_lower (ascii ''Tokyo'')) (ascii ''report'') =
      Some ([0x1F327, 0xFE0F] @ ascii '' Tokyo: M'' @ [0x1B0] @ ascii ''a nh''
      @ [0x1EB9] @ ascii '', 18'' @ [0xB0] @ ascii ''C'')"
    unfolding get_weather_def tokyo by (simp add: mock_weather_db_def ascii_def)
  have contains: "sublist (ascii ''Tokyo'') ([0x1F327, 0xFE0F] @ ascii '' Tokyo: M'' @ [0x1B0]
      @ ascii ''a nh'' @ [0x1EB9] @ ascii '', 18'' @ [0xB0] @ ascii ''C'')"
    by (simp add: ascii_def sublist_code(3))
  from get_weather_success_or_failure [of latin_lower "ascii ''Tokyo''"]
    get_weather_success_or_failure [of latin_lower "ascii ''Atlantis''"]
    known unknown tokyo atlantis report contains
  show ?thesis
    by blast
qed

text \<open>
  C9. Two cities with the same lower-cased, space-free form that is a key of the table get
  the same result, whatever the strings given; in the failure branch the result is the
  error record whose message has the city, as it was given, between two fixed strings.
  \<open>get_weather\<close> reads nothing but its argument, so it is a function of it.
\<close>

theorem get_weather_normalization_invariant:
  "(city_normalized str_lower city1 = city_normalized str_lower city2 \<and>
    city_normalized str_lower city1 \<in>
      {ascii ''hanoi'', ascii ''h'' @ [0xE0] @ ascii ''n'' @ [0x1ED9] @ ascii ''i'',
       ascii ''london'', ascii ''tokyo''} \<longrightarrow>
      get_weather str_lower city1 = get_weather str_lower city2) \<and>
   (city_normalized str_lower city \<notin>
      {ascii ''hanoi'', ascii ''h'' @ [0xE0] @ ascii ''n'' @ [0x1ED9] @ ascii ''i'',
       ascii ''london'', ascii ''tokyo''} \<longrightarrow>
      get_weather str_lower city =
        [(ascii ''status'', ascii ''error''),
         (ascii ''error_message'',
            (ascii ''Xin l'' @ [0x1ED7] @ ascii ''i, kh'' @ [0xF4] @ ascii ''ng c'' @ [0xF3]
             @ ascii '' th'' @ [0xF4] @ ascii ''ng tin th'' @ [0x1EDD] @ ascii ''i ti'' @ [0x1EBF]
             @ ascii ''t cho '' @ [0x27]) @ city @ ([0x27] @ ascii ''.''))])"
proof (intro conjI impI)
  assume "city_normalized str_lower city1 = city_normalized str_lower city2 \<and>
    city_normalized str_lower city1 \<in>
      {ascii ''hanoi'', ascii ''h'' @ [0xE0] @ ascii ''n'' @ [0x1ED9] @ ascii ''i'',
       ascii ''london'', ascii ''tokyo''}"
  then have same: "city_normalized str_lower city1 = city_normalized str_lower city2"
    and "map_of mock_weather_db (city_normalized str_lower city1) \<noteq> None"
    using mock_weather_db_keys [of "city_normalized str_lower city1"] by blast+
  then obtain entry where "map_of mock_weather_db (city_normalized str_lower city1) = Some entry"
    by blast
  then have "get_weather str_lower city1 = entry" and "get_weather str_lower city2 = entry"
    unfolding get_weather_def same [symmetric] by simp_all
  then show "get_weather str_lower city1 = get_weather str_lower city2"
    by simp
next
  assume "city_normalized str_lower city \<notin>
      {ascii ''hanoi'', ascii ''h'' @ [0xE0] @ ascii ''n'' @ [0x1ED9] @ ascii ''i'',
       ascii ''london'', ascii ''tokyo''}"
  then have "map_of mock_weather_db (city_normalized str_lower city) = None"
    using mock_weather_db_keys [of "city_normalized str_lower city"] by blast
  then show "get_weather str_lower city =
        [(ascii ''status'', ascii ''error''),
         (ascii ''error_message'',
            (ascii ''Xin l'' @ [0x1ED7] @ ascii ''i, kh'' @ [0xF4] @ ascii ''ng c'' @ [0xF3]
             @ ascii '' th'' @ [0xF4] @ ascii ''ng tin th'' @ [0x1EDD] @ ascii ''i ti'' @ [0x1EBF]
             @ ascii ''t cho '' @ [0x27]) @ city @ ([0x27] @ ascii ''.''))]"
    by (simp add: get_weather_def)
qed

theorem get_weather_normalization_invariant_witness:
  "get_weather latin_lower (ascii ''H'' @ [0xE0] @ ascii '' N'' @ [0x1ED9] @ ascii ''i'') =
     get_weather latin_lower (ascii ''h'' @ [0xE0] @ ascii '' n'' @ [0x1ED9] @ ascii ''i'') \<and>
   get_weather latin_lower (ascii ''H'' @ [0xE0] @ ascii '' N'' @ [0x1ED9] @ ascii ''i'') =
     get_weather latin_lower (ascii ''H'' @ [0xE0] @ ascii ''N'' @ [0x1ED9] @ ascii ''i'') \<and>
   get_weather latin_lower (ascii ''Atlantis'') =
     [(ascii ''status'', ascii ''error''),
      (ascii ''error_message'',
         (ascii ''Xin l'' @ [0x1ED7] @ ascii ''i, kh'' @ [0xF4] @ ascii ''ng c'' @ [0xF3]
          @ ascii '' th'' @ [0xF4] @ ascii ''ng tin th'' @ [0x1EDD] @ ascii ''i ti'' @ [0x1EBF]
          @ ascii ''t cho '' @ [0x27]) @ ascii ''Atlantis'' @ ([0x27] @ ascii ''.''))]"
proof -
  have n1: "city_normalized latin_lower
      (ascii ''H'' @ [0xE0] @ ascii '' N'' @ [0x1ED9] @ ascii ''i'') =
      ascii ''h'' @ [0xE0] @ ascii ''n'' @ [0x1ED9] @ ascii ''i''"
    by (simp add: city_normalized_def latin_lower_def latin_lower_cp_def str_replace_char_def
        ascii_def)
  have n2: "city_normalized latin_lower
      (ascii ''h'' @ [0xE0] @ ascii '' n'' @ [0x1ED9] @ ascii ''i'') =
      ascii ''h'' @ [0xE0] @ ascii ''n'' @ [0x1ED9] @ ascii ''i''"
    by (simp add: city_normalized_def latin_lower_def latin_lower_cp_def str_replace_char_def
        ascii_def)
  have n3: "city_normalized latin_lower
      (ascii ''H'' @ [0xE0] @ ascii ''N'' @ [0x1ED9] @ ascii ''i'') =
      ascii ''h'' @ [0xE0] @ ascii ''n'' @ [0x1ED9] @ ascii ''i''"
    by (simp add: city_normalized_def latin_lower_def latin_lower_cp_def str_replace_char_def
        ascii_def)
  have n4: "city_normalized latin_lower (ascii ''Atlantis'') = ascii ''atlantis''"
    by (simp add: city_normalized_def latin_lower_def latin_lower_cp_def str_replace_char_def
        ascii_def)
  have known: "ascii ''h'' @ [0xE0] @ ascii ''n'' @ [0x1ED9] @ ascii ''i'' \<in>
      {ascii ''hanoi'', ascii ''h'' @ [0xE0] @ ascii ''n'' @ [0x1ED9] @ ascii ''i'',
       ascii ''london'', ascii ''tokyo''}"
    by simp
  have unknown: "ascii ''atlantis'' \<notin>
      {ascii ''hanoi'', ascii ''h'' @ [0xE0] @ ascii ''n'' @ [0x1ED9] @ ascii ''i'',
       ascii ''london'', ascii ''tokyo''}"
    by (simp add: ascii_def)
  from get_weather_normalization_invariant [of latin_lower
      "ascii ''H'' @ [0xE0] @ ascii '' N'' @ [0x1ED9] @ ascii ''i''"
      "ascii ''h'' @ [0xE0] @ ascii '' n'' @ [0x1ED9] @ ascii ''i''" "ascii ''Atlantis''"]
    get_weather_normalization_invariant [of latin_lower
      "ascii ''H'' @ [0xE0] @ ascii '' N'' @ [0x1ED9] @ ascii ''i''"
      "ascii ''H'' @ [0xE0] @ ascii ''N'' @ [0x1ED9] @ ascii ''i''" "ascii ''Atlantis''"]
    known unknown
  show ?thesis
    unfolding n1 n2 n3 n4 by blast
qed

text \<open>
  C10. \<open>say_hello\<close> puts a name that is not empty between the greeting and the
  exclamation mark; without a name, and with the empty name, it returns the greeting alone.
  \<open>say_goodbye\<close> is one fixed string.
\<close>

theorem say_hello_say_goodbye:
  "(name \<noteq> [] \<longrightarrow>
      say_hello (Some name) =
        [0x1F44B] @ ascii '' Xin ch'' @ [0xE0] @ ascii ''o, '' @ name @ ascii ''!'') \<and>
   say_hello None = [0x1F44B] @ ascii '' Xin ch'' @ [0xE0] @ ascii ''o!'' \<and>
   say_hello (Some []) = [0x1F44B] @ ascii '' Xin ch'' @ [0xE0] @ ascii ''o!'' \<and>
   say_goodbye =
     [0x1F44B, 0x20, 0x54, 0x1EA1, 0x6D, 0x20, 0x62, 0x69, 0x1EC7, 0x74, 0x21, 0x20, 0x43, 0x68,
      0xFA, 0x63, 0x20, 0x62, 0x1EA1, 0x6E, 0x20, 0x6D, 0x1ED9, 0x74, 0x20, 0x6E, 0x67, 0xE0,
      0x79, 0x20, 0x74, 0x1ED1, 0x74, 0x20, 0x6C, 0xE0, 0x6E, 0x68, 0x21, 0x20, 0x2728]"
  by (simp add: say_hello_def say_goodbye_def ascii_def)

theorem say_hello_say_goodbye_witness:
  "say_hello (Some (ascii ''An'')) =
     [0x1F44B] @ ascii '' Xin ch'' @ [0xE0] @ ascii ''o, An!''"
  using say_hello_say_goodbye [of "ascii ''An''"] by (simp add: ascii_def)

section \<open>Properties of \<open>call_agent_async\<close>\<close>

lemma loop_exhausted:
  "anext gen = None \<Longrightarrow>
     call_agent_async_loop anext gen final_response_text = Some (final_response_text, gen)"
  by (subst call_agent_async_loop.simps) simp

lemma loop_final:
  "anext gen = Some (event, gen') \<Longrightarrow> is_final_response event \<Longrightarrow>
     call_agent_async_loop anext gen final_response_text =
       Some (on_final_response event final_response_text, gen')"
  by (subst call_agent_async_loop.simps) simp

lemma loop_continue:
  "anext gen = Some (event, gen') \<Longrightarrow> \<not> is_final_response event \<Longrightarrow>
     call_agent_async_loop anext gen final_response_text =
       call_agent_async_loop anext gen' final_response_text"
  by (subst call_agent_async_loop.simps) simp

lemma loop_skips:
  "pulls anext gen events = Some gen' \<Longrightarrow> \<forall>e\<in>set events. \<not> is_final_response e \<Longrightarrow>
     call_agent_async_loop anext gen final_response_text =
       call_agent_async_loop anext gen' final_response_text"
proof (induction events arbitrary: gen)
  case Nil
  then show ?case by simp
next
  case (Cons e events)
  from Cons.prems(1) obtain gen1 where step: "anext gen = Some (e, gen1)"
    and rest: "pulls anext gen1 events = Some gen'"
    by (auto split: option.splits if_splits)
  from Cons.prems(2) have "\<not> is_final_response e" and "\<forall>e\<in>set events. \<not> is_final_response e"
    by simp_all
  with step rest Cons.IH [of gen1] show ?case
    by (simp add: loop_continue)
qed

lemma pulls_list_anext: "pulls list_anext (events @ rest) events = Some rest"
  by (induction events) (simp_all add: list_anext_def)

lemma list_loop_final:
  assumes "\<forall>e\<in>set before. \<not> is_final_response e" and "is_final_response event"
  shows "call_agent_async_loop list_anext (before @ event # after) final_response_text =
           Some (on_final_response event final_response_text, after)"
proof -
  have "pulls list_anext (before @ event # after) before = Some (event # after)"
    by (rule pulls_list_anext)
  then have "call_agent_async_loop list_anext (before @ event # after) final_response_text =
      call_agent_async_loop list_anext (event # after) final_response_text"
    using assms(1) by (rule loop_skips)
  also have "\<dots> = Some (on_final_response event final_response_text, after)"
    using assms(2) by (intro loop_final) (simp add: list_anext_def)
  finally show ?thesis .
qed

lemma list_loop_exhausted:
  assumes "\<forall>e\<in>set events. \<not> is_final_response e"
  shows "call_agent_async_loop list_anext events final_response_text =
           Some (final_response_text, [])"
proof -
  have "pulls list_anext (events @ []) events = Some []"
    by (rule pulls_list_anext)
  with assms have "call_agent_async_loop list_anext events final_response_text =
      call_agent_async_loop list_anext [] final_response_text"
    using loop_skips [of list_anext events events "[]"] by simp
  also have "\<dots> = Some (final_response_text, [])"
    by (intro loop_exhausted) (simp add: list_anext_def)
  finally show ?thesis .
qed

text \<open>
  C7. When the generator yields events that are not final and then a final event, the call
  returns the text that the final event gives, whatever the events before it were, and
  leaves the generator in the state that yielded the final event: nothing after the first
  final event is asked for. (The generator is threaded through the loop, so the state that
  the call returns has been asked exactly once for each event before the final one and once
  for the final one.)
\<close>

theorem call_agent_async_stops_at_first_final:
  "pulls anext (run_async runner user_id session_id (user_content query)) before = Some gen' \<and>
   (\<forall>e\<in>set before. \<not> is_final_response e) \<and>
   anext gen' = Some (event, gen'') \<and> is_final_response event \<longrightarrow>
     call_agent_async run_async anext query runner user_id session_id =
       Some (on_final_response event
               (Some ([0x26A0, 0xFE0F] @ ascii '' Agent kh'' @ [0xF4] @ ascii ''ng t'' @ [0x1EA1]
                      @ ascii ''o ra response.'')), gen'')"
  by (auto simp: call_agent_async_def loop_skips loop_final)

theorem call_agent_async_stops_at_first_final_witness:
  "call_agent_async list_run_async list_anext (ascii ''hi'')
     [\<lparr>is_final_response = False, content = None, actions = None, error_message = None\<rparr>,
      \<lparr>is_final_response = False,
       content = Some \<lparr>role = None, parts = Some [\<lparr>text = Some (ascii ''thinking'')\<rparr>]\<rparr>,
       actions = None, error_message = None\<rparr>,
      \<lparr>is_final_response = True,
       content = Some \<lparr>role = None, parts = Some [\<lparr>text = Some (ascii ''Hello!'')\<rparr>]\<rparr>,
       actions = None, error_message = None\<rparr>,
      \<lparr>is_final_response = True,
       content = Some \<lparr>role = None, parts = Some [\<lparr>text = Some (ascii ''Later'')\<rparr>]\<rparr>,
       actions = None, error_message = None\<rparr>]
     (ascii ''user_1'') (ascii ''session_001'') =
   Some (Some (ascii ''Hello!''),
     [\<lparr>is_final_response = True,
       content = Some \<lparr>role = None, parts = Some [\<lparr>text = Some (ascii ''Later'')\<rparr>]\<rparr>,
       actions = None, error_message = None\<rparr>])"
  using call_agent_async_stops_at_first_final [of list_anext list_run_async
      "[\<lparr>is_final_response = False, content = None, actions = None, error_message = None\<rparr>,
        \<lparr>is_final_response = False,
         content = Some \<lparr>role = None, parts = Some [\<lparr>text = Some (ascii ''thinking'')\<rparr>]\<rparr>,
         actions = None, error_message = None\<rparr>,
        \<lparr>is_final_response = True,
         content = Some \<lparr>role = None, parts = Some [\<lparr>text = Some (ascii ''Hello!'')\<rparr>]\<rparr>,
         actions = None, error_message = None\<rparr>,
        \<lparr>is_final_response = True,
         content = Some \<lparr>role = None, parts = Some [\<lparr>text = Some (ascii ''Later'')\<rparr>]\<rparr>,
         actions = None, error_message = None\<rparr>]"
      "ascii ''user_1''" "ascii ''session_001''" "ascii ''hi''"
      "[\<lparr>is_final_response = False, content = None, actions = None, error_message = None\<rparr>,
        \<lparr>is_final_response = False,
         content = Some \<lparr>role = None, parts = Some [\<lparr>text = Some (ascii ''thinking'')\<rparr>]\<rparr>,
         actions = None, error_message = None\<rparr>]"
      "[\<lparr>is_final_response = True,
         content = Some \<lparr>role = None, parts = Some [\<lparr>text = Some (ascii ''Hello!'')\<rparr>]\<rparr>,
         actions = None, error_message = None\<rparr>,
        \<lparr>is_final_response = True,
         content = Some \<lparr>role = None, parts = Some [\<lparr>text = Some (ascii ''Later'')\<rparr>]\<rparr>,
         actions = None, error_message = None\<rparr>]"
      "\<lparr>is_final_response = True,
        content = Some \<lparr>role = None, parts = Some [\<lparr>text = Some (ascii ''Hello!'')\<rparr>]\<rparr>,
        actions = None, error_message = None\<rparr>"
      "[\<lparr>is_final_response = True,
         content = Some \<lparr>role = None, parts = Some [\<lparr>text = Some (ascii ''Later'')\<rparr>]\<rparr>,
         actions = None, error_message = None\<rparr>]"]
  by (simp add: list_run_async_def list_anext_def on_final_response_def content_parts_def)

text \<open>
  C2, as stated, fails: a final event that has the escalate action set and an error message,
  and also has a content part, makes the call return the text of the part, without the
  warning mark and without the error message.
\<close>

theorem escalation_with_content_swallowed:
  "is_final_response escalation_with_content \<and>
   actions_escalate escalation_with_content \<and>
   error_message escalation_with_content = Some (ascii ''internal timeout'') \<and>
   call_agent_async list_run_async list_anext (ascii ''hi'') [escalation_with_content]
     (ascii ''user_1'') (ascii ''session_001'') = Some (Some (ascii ''Done''), []) \<and>
   \<not> prefix [0x26A0, 0xFE0F] (ascii ''Done'') \<and>
   \<not> sublist (ascii ''internal timeout'') (ascii ''Done'')"
proof -
  have final: "is_final_response escalation_with_content"
    by (simp add: escalation_with_content_def)
  have "call_agent_async_loop list_anext ([] @ escalation_with_content # []) t =
      Some (on_final_response escalation_with_content t, [])" for t
    using final by (intro list_loop_final) simp_all
  moreover have "on_final_response escalation_with_content t = Some (ascii ''Done'')" for t
    by (simp add: on_final_response_def content_parts_def escalation_with_content_def)
  ultimately have "call_agent_async list_run_async list_anext (ascii ''hi'')
      [escalation_with_content] (ascii ''user_1'') (ascii ''session_001'') =
      Some (Some (ascii ''Done''), [])"
    by (simp add: call_agent_async_def list_run_async_def)
  moreover have "actions_escalate escalation_with_content"
    and "error_message escalation_with_content = Some (ascii ''internal timeout'')"
    by (simp_all add: actions_escalate_def escalation_with_content_def)
  moreover have "\<not> prefix [0x26A0, 0xFE0F] (ascii ''Done'')"
    and "\<not> sublist (ascii ''internal timeout'') (ascii ''Done'')"
    by (simp_all add: ascii_def sublist_code(3))
  ultimately show ?thesis
    using final by blast
qed

text \<open>
  C2, amended. When the first final event has no content part and has the escalate action
  set, the call returns the warning mark and \<open>Agent escalated:\<close> followed by the error
  message of the event when it is present and not empty, and followed by the fixed phrase
  when the error message is absent or empty.
\<close>

theorem escalation_without_content_warning:
  "pulls anext (run_async runner user_id session_id (user_content query)) before = Some gen' \<and>
   (\<forall>e\<in>set before. \<not> is_final_response e) \<and>
   anext gen' = Some (event, gen'') \<and> is_final_response event \<and>
   content_parts event = [] \<and> actions_escalate event \<longrightarrow>
     (\<forall>m. error_message event = Some m \<and> m \<noteq> [] \<longrightarrow>
        call_agent_async run_async anext query runner user_id session_id =
          Some (Some ([0x26A0, 0xFE0F] @ ascii '' Agent escalated: '' @ m), gen'')) \<and>
     (error_message event = None \<or> error_message event = Some [] \<longrightarrow>
        call_agent_async run_async anext query runner user_id session_id =
          Some (Some ([0x26A0, 0xFE0F] @ ascii '' Agent escalated: ''
                      @ ascii ''Kh'' @ [0xF4] @ ascii ''ng c'' @ [0xF3] @ ascii '' message.''), gen''))"
proof (intro impI)
  assume hyps: "pulls anext (run_async runner user_id session_id (user_content query)) before =
      Some gen' \<and>
    (\<forall>e\<in>set before. \<not> is_final_response e) \<and>
    anext gen' = Some (event, gen'') \<and> is_final_response event \<and>
    content_parts event = [] \<and> actions_escalate event"
  then have "call_agent_async run_async anext query runner user_id session_id =
      Some (on_final_response event
              (Some ([0x26A0, 0xFE0F] @ ascii '' Agent kh'' @ [0xF4] @ ascii ''ng t'' @ [0x1EA1]
                     @ ascii ''o ra response.'')), gen'')"
    by (auto simp: call_agent_async_def loop_skips loop_final)
  with hyps show "(\<forall>m. error_message event = Some m \<and> m \<noteq> [] \<longrightarrow>
        call_agent_async run_async anext query runner user_id session_id =
          Some (Some ([0x26A0, 0xFE0F] @ ascii '' Agent escalated: '' @ m), gen'')) \<and>
     (error_message event = None \<or> error_message event = Some [] \<longrightarrow>
        call_agent_async run_async anext query runner user_id session_id =
          Some (Some ([0x26A0, 0xFE0F] @ ascii '' Agent escalated: ''
                      @ ascii ''Kh'' @ [0xF4] @ ascii ''ng c'' @ [0xF3] @ ascii '' message.''), gen''))"
    by (auto simp: on_final_response_def)
qed

theorem escalation_without_content_warning_witness:
  "call_agent_async list_run_async list_anext (ascii ''hi'')
     [\<lparr>is_final_response = False, content = None, actions = None, error_message = None\<rparr>,
      \<lparr>is_final_response = True, content = None, actions = Some \<lparr>escalate = Some True\<rparr>,
       error_message = Some (ascii ''internal timeout'')\<rparr>]
     (ascii ''user_1'') (ascii ''session_001'') =
     Some (Some ([0x26A0, 0xFE0F] @ ascii '' Agent escalated: internal timeout''), []) \<and>
   call_agent_async list_run_async list_anext (ascii ''hi'')
     [\<lparr>is_final_response = True, content = Some \<lparr>role = None, parts = Some []\<rparr>,
       actions = Some \<lparr>escalate = Some True\<rparr>, error_message = None\<rparr>]
     (ascii ''user_1'') (ascii ''session_001'') =
     Some (Some ([0x26A0, 0xFE0F] @ ascii '' Agent escalated: Kh'' @ [0xF4] @ ascii ''ng c''
                 @ [0xF3] @ ascii '' message.''), [])"
proof -
  have first: "call_agent_async list_run_async list_anext (ascii ''hi'')
     [\<lparr>is_final_response = False, content = None, actions = None, error_message = None\<rparr>,
      \<lparr>is_final_response = True, content = None, actions = Some \<lparr>escalate = Some True\<rparr>,
       error_message = Some (ascii ''internal timeout'')\<rparr>]
     (ascii ''user_1'') (ascii ''session_001'') =
     Some (Some ([0x26A0, 0xFE0F] @ ascii '' Agent escalated: '' @ ascii ''internal timeout''), [])"
    using escalation_without_content_warning [of list_anext list_run_async
        "[\<lparr>is_final_response = False, content = None, actions = None, error_message = None\<rparr>,
          \<lparr>is_final_response = True, content = None, actions = Some \<lparr>escalate = Some True\<rparr>,
           error_message = Some (ascii ''internal timeout'')\<rparr>]"
        "ascii ''user_1''" "ascii ''session_001''" "ascii ''hi''"
        "[\<lparr>is_final_response = False, content = None, actions = None, error_message = None\<rparr>]"
        "[\<lparr>is_final_response = True, content = None, actions = Some \<lparr>escalate = Some True\<rparr>,
           error_message = Some (ascii ''internal timeout'')\<rparr>]"
        "\<lparr>is_final_response = True, content = None, actions = Some \<lparr>escalate = Some True\<rparr>,
          error_message = Some (ascii ''internal timeout'')\<rparr>"
        "[]"]
    by (simp add: list_run_async_def list_anext_def content_parts_def actions_escalate_def)
      (simp add: ascii_def)
  have second: "call_agent_async list_run_async list_anext (ascii ''hi'')
     [\<lparr>is_final_response = True, content = Some \<lparr>role = None, parts = Some []\<rparr>,
       actions = Some \<lparr>escalate = Some True\<rparr>, error_message = None\<rparr>]
     (ascii ''user_1'') (ascii ''session_001'') =
     Some (Some ([0x26A0, 0xFE0F] @ ascii '' Agent escalated: ''
                 @ ascii ''Kh'' @ [0xF4] @ ascii ''ng c'' @ [0xF3] @ ascii '' message.''), [])"
    using escalation_without_content_warning [of list_anext list_run_async
        "[\<lparr>is_final_response = True, content = Some \<lparr>role = None, parts = Some []\<rparr>,
           actions = Some \<lparr>escalate = Some True\<rparr>, error_message = None\<rparr>]"
        "ascii ''user_1''" "ascii ''session_001''" "ascii ''hi''"
        "[]"
        "[\<lparr>is_final_response = True, content = Some \<lparr>role = None, parts = Some []\<rparr>,
           actions = Some \<lparr>escalate = Some True\<rparr>, error_message = None\<rparr>]"
        "\<lparr>is_final_response = True, content = Some \<lparr>role = None, parts = Some []\<rparr>,
          actions = Some \<lparr>escalate = Some True\<rparr>, error_message = None\<rparr>"
        "[]"]
    by (simp add: list_run_async_def list_anext_def content_parts_def actions_escalate_def)
  from first second show ?thesis
    by (simp add: ascii_def)
qed

lemma on_final_response_string:
  assumes "final_response_text \<noteq> None"
    and "content_parts event = [] \<or> text (hd (content_parts event)) \<noteq> None"
  shows "on_final_response event final_response_text \<noteq> None"
  using assms by (auto simp: on_final_response_def split: list.splits)

text \<open>
  C5 fails on the code: when the first part of the first final event has no text (a part
  that carries a function response or data), the call returns \<open>None\<close>, not a string.
\<close>

theorem final_without_text_returns_none:
  "call_agent_async list_run_async list_anext (ascii ''hi'') [final_without_text]
     (ascii ''user_1'') (ascii ''session_001'') = Some (None, [])"
proof -
  have "call_agent_async_loop list_anext ([] @ final_without_text # []) t =
      Some (on_final_response final_without_text t, [])" for t
    by (intro list_loop_final) (simp_all add: final_without_text_def)
  moreover have "on_final_response final_without_text t = None" for t
    by (simp add: on_final_response_def content_parts_def final_without_text_def)
  ultimately show ?thesis
    by (simp add: call_agent_async_def list_run_async_def)
qed

section \<open>Properties of a turn on the runner of the specification\<close>

lemma spec_pulls_intermediate:
  "pulls next_event e0 (replicate n Intermediate) = Some e' \<Longrightarrow>
     pulls (spec_anext next_event) \<lparr>session = s, engine = e0\<rparr> (replicate n (to_event Intermediate)) =
       Some \<lparr>session = s, engine = e'\<rparr>"
proof (induction n arbitrary: e0)
  case 0
  then show ?case by simp
next
  case (Suc n)
  from Suc.prems obtain e where step: "next_event e0 = Some (Intermediate, e)"
    and rest: "pulls next_event e (replicate n Intermediate) = Some e'"
    by (auto split: option.splits if_splits)
  from step have "spec_anext next_event \<lparr>session = s, engine = e0\<rparr> =
      Some (to_event Intermediate, \<lparr>session = s, engine = e\<rparr>)"
    by (simp add: spec_anext_def)
  with Suc.IH [OF rest] show ?case
    by simp
qed

lemma spec_anext_session:
  assumes "spec_anext next_event turn = Some (event, turn')"
  shows "(\<not> is_final_response event \<longrightarrow> session turn' = session turn) \<and>
         (\<exists>extra. session turn' = (session turn)\<lparr>history := history (session turn) @ extra\<rparr> \<and>
           length extra \<le> 1 \<and> (\<forall>m\<in>set extra. role_of m = AgentRole))"
proof -
  from assms obtain ev e' where "next_event (engine turn) = Some (ev, e')"
    and event: "event = to_event ev"
    and turn': "turn' = \<lparr>session = (case ev of
                      Final m \<Rightarrow>
                        (session turn)\<lparr>history := history (session turn)
                                                   @ [Message AgentRole (text_of m)]\<rparr>
                    | _ \<Rightarrow> session turn), engine = e'\<rparr>"
    by (auto simp: spec_anext_def split: option.splits)
  show ?thesis
  proof (cases ev)
    case Intermediate
    with event turn' have "session turn' = (session turn)\<lparr>history := history (session turn) @ []\<rparr>"
      by simp
    with Intermediate event turn' show ?thesis
      by (intro conjI exI [of _ "[]"]) simp_all
  next
    case (Final m)
    with event turn' show ?thesis
      by (intro conjI exI [of _ "[Message AgentRole (text_of m)]"]) simp_all
  next
    case (Escalated error)
    with event turn' have "session turn' = (session turn)\<lparr>history := history (session turn) @ []\<rparr>"
      by simp
    with Escalated event turn' show ?thesis
      by (intro conjI exI [of _ "[]"]) simp_all
  qed
qed

lemma spec_loop_history:
  assumes "call_agent_async_loop anext turn t = Some y"
  shows "anext = spec_anext next_event \<longrightarrow>
         (\<exists>extra. session (snd y) = (session turn)\<lparr>history := history (session turn) @ extra\<rparr> \<and>
           length extra \<le> 1 \<and> (\<forall>m\<in>set extra. role_of m = AgentRole))"
  using assms
proof (induction rule: call_agent_async_loop.raw_induct[rotated 1, consumes 1])
  case (1 loop anext turn t y)
  show ?case
  proof
    assume anext: "anext = spec_anext next_event"
    show "\<exists>extra. session (snd y) = (session turn)\<lparr>history := history (session turn) @ extra\<rparr> \<and>
           length extra \<le> 1 \<and> (\<forall>m\<in>set extra. role_of m = AgentRole)"
    proof (cases "anext turn")
      case None
      with "1.hyps" have "y = (t, turn)"
        by simp
      then show ?thesis
        by (intro exI [of _ "[]"]) simp
    next
      case (Some pair)
      then obtain event turn' where step: "anext turn = Some (event, turn')"
        by (cases pair) simp
      show ?thesis
      proof (cases "is_final_response event")
        case True
        with step "1.hyps" have "snd y = turn'"
          by auto
        with step anext spec_anext_session [of next_event turn event turn'] show ?thesis
          by simp
      next
        case False
        with step "1.hyps" have "loop anext turn' t = Some y"
          by simp
        with "1.IH" anext have "\<exists>extra. session (snd y) =
            (session turn')\<lparr>history := history (session turn') @ extra\<rparr> \<and>
            length extra \<le> 1 \<and> (\<forall>m\<in>set extra. role_of m = AgentRole)"
          by blast
        moreover from False step anext spec_anext_session [of next_event turn event turn']
        have "session turn' = session turn"
          by simp
        ultimately show ?thesis
          by simp
      qed
    qed
  qed
qed


lemma spec_run_async_history:
  "spec_run_async startTurn agent sess user_id session_id (user_content query) =
     \<lparr>session = sess\<lparr>history := history sess @ [Message UserRole query]\<rparr>,
      engine = startTurn agent (sess\<lparr>history := history sess @ [Message UserRole query]\<rparr>)
                 (Message UserRole query)\<rparr>"
  by (simp add: spec_run_async_def utterance_def user_content_def Let_def)

lemma to_event_final: "is_final_response (to_event ev) \<longleftrightarrow> ev \<noteq> Intermediate"
  by (cases ev) simp_all

text \<open>
  C3. When the generator is exhausted without a final event, after any number of events
  and also after none, \<open>call_agent_async\<close> returns the fixed text that says that the
  agent produced no response; the call returns, and no branch of it raises. On the runner
  of the specification, when the engine ends without a final or escalated event, the
  history after the call is the history before it with the user message appended: no
  message of the agent is appended.
\<close>

theorem no_final_event_fallback:
  "(pulls anext (run_async runner user_id session_id (user_content query)) events = Some gen' \<and>
    (\<forall>e\<in>set events. \<not> is_final_response e) \<and> anext gen' = None \<longrightarrow>
      call_agent_async run_async anext query runner user_id session_id =
        Some (Some ([0x26A0, 0xFE0F] @ ascii '' Agent kh'' @ [0xF4] @ ascii ''ng t'' @ [0x1EA1]
                    @ ascii ''o ra response.''), gen')) \<and>
   (pulls next_event
      (startTurn agent (sess\<lparr>history := history sess @ [Message UserRole query]\<rparr>)
         (Message UserRole query))
      (replicate n Intermediate) = Some e' \<and>
    next_event e' = None \<longrightarrow>
      call_agent_async (spec_run_async startTurn agent) (spec_anext next_event) query sess
          user_id session_id =
        Some (Some ([0x26A0, 0xFE0F] @ ascii '' Agent kh'' @ [0xF4] @ ascii ''ng t'' @ [0x1EA1]
                    @ ascii ''o ra response.''),
              \<lparr>session = sess\<lparr>history := history sess @ [Message UserRole query]\<rparr>,
               engine = e'\<rparr>))"
proof (intro conjI impI)
  assume "pulls anext (run_async runner user_id session_id (user_content query)) events = Some gen' \<and>
    (\<forall>e\<in>set events. \<not> is_final_response e) \<and> anext gen' = None"
  then show "call_agent_async run_async anext query runner user_id session_id =
        Some (Some ([0x26A0, 0xFE0F] @ ascii '' Agent kh'' @ [0xF4] @ ascii ''ng t'' @ [0x1EA1]
                    @ ascii ''o ra response.''), gen')"
    by (auto simp: call_agent_async_def loop_skips loop_exhausted)
next
  let ?sess = "sess\<lparr>history := history sess @ [Message UserRole query]\<rparr>"
  let ?text = "Some ([0x26A0, 0xFE0F] @ ascii '' Agent kh'' @ [0xF4] @ ascii ''ng t'' @ [0x1EA1]
                    @ ascii ''o ra response.'')"
  assume "pulls next_event (startTurn agent ?sess (Message UserRole query))
      (replicate n Intermediate) = Some e' \<and> next_event e' = None"
  then have engine: "pulls next_event (startTurn agent ?sess (Message UserRole query))
      (replicate n Intermediate) = Some e'"
    and ended: "spec_anext next_event \<lparr>session = ?sess, engine = e'\<rparr> = None"
    by (simp_all add: spec_anext_def)
  have pulled: "pulls (spec_anext next_event)
      \<lparr>session = ?sess, engine = startTurn agent ?sess (Message UserRole query)\<rparr>
      (replicate n (to_event Intermediate)) = Some \<lparr>session = ?sess, engine = e'\<rparr>"
    using engine by (rule spec_pulls_intermediate)
  have "call_agent_async_loop (spec_anext next_event)
      \<lparr>session = ?sess, engine = startTurn agent ?sess (Message UserRole query)\<rparr> ?text =
      call_agent_async_loop (spec_anext next_event) \<lparr>session = ?sess, engine = e'\<rparr> ?text"
    using pulled by (rule loop_skips) simp
  also have "\<dots> = Some (?text, \<lparr>session = ?sess, engine = e'\<rparr>)"
    using ended by (rule loop_exhausted)
  finally show "call_agent_async (spec_run_async startTurn agent) (spec_anext next_event) query sess
          user_id session_id = Some (?text, \<lparr>session = ?sess, engine = e'\<rparr>)"
    by (simp add: call_agent_async_def spec_run_async_history)
qed

theorem no_final_event_fallback_witness:
  "call_agent_async list_run_async list_anext (ascii ''hi'') [] (ascii ''user_1'')
     (ascii ''session_001'') =
     Some (Some ([0x26A0, 0xFE0F] @ ascii '' Agent kh'' @ [0xF4] @ ascii ''ng t'' @ [0x1EA1] @ ascii ''o ra response.''), []) \<and>
   call_agent_async list_run_async list_anext (ascii ''hi'')
     [\<lparr>is_final_response = False, content = None, actions = None, error_message = None\<rparr>,
      \<lparr>is_final_response = False, content = None, actions = None, error_message = None\<rparr>]
     (ascii ''user_1'') (ascii ''session_001'') =
     Some (Some ([0x26A0, 0xFE0F] @ ascii '' Agent kh'' @ [0xF4] @ ascii ''ng t'' @ [0x1EA1] @ ascii ''o ra response.''), []) \<and>
   call_agent_async (spec_run_async (list_startTurn []) ()) (spec_anext list_anext) (ascii ''hi'')
     \<lparr>applicationName = ascii ''Weather Agent Demo'', userId = ascii ''user_1'',
      sessionId = ascii ''session_001'', history = []\<rparr>
     (ascii ''user_1'') (ascii ''session_001'') =
     Some (Some ([0x26A0, 0xFE0F] @ ascii '' Agent kh'' @ [0xF4] @ ascii ''ng t'' @ [0x1EA1] @ ascii ''o ra response.''),
           \<lparr>session =
              \<lparr>applicationName = ascii ''Weather Agent Demo'', userId = ascii ''user_1'',
               sessionId = ascii ''session_001'', history = [Message UserRole (ascii ''hi'')]\<rparr>,
            engine = []\<rparr>)"
proof -
  have "call_agent_async list_run_async list_anext (ascii ''hi'') [] (ascii ''user_1'')
      (ascii ''session_001'') = Some (Some ([0x26A0, 0xFE0F] @ ascii '' Agent kh'' @ [0xF4] @ ascii ''ng t'' @ [0x1EA1] @ ascii ''o ra response.''), [])"
    using no_final_event_fallback [where anext = list_anext and run_async = list_run_async
        and runner = "[]" and events = "[]" and gen' = "[]" and query = "ascii ''hi''"
        and user_id = "ascii ''user_1''" and session_id = "ascii ''session_001''",
        THEN conjunct1]
    by (simp add: list_run_async_def list_anext_def)
  moreover have "call_agent_async list_run_async list_anext (ascii ''hi'')
      [\<lparr>is_final_response = False, content = None, actions = None, error_message = None\<rparr>,
       \<lparr>is_final_response = False, content = None, actions = None, error_message = None\<rparr>]
      (ascii ''user_1'') (ascii ''session_001'') = Some (Some ([0x26A0, 0xFE0F] @ ascii '' Agent kh'' @ [0xF4] @ ascii ''ng t'' @ [0x1EA1] @ ascii ''o ra response.''), [])"
    using no_final_event_fallback [where anext = list_anext and run_async = list_run_async
        and runner = "[\<lparr>is_final_response = False, content = None, actions = None, error_message = None\<rparr>,
          \<lparr>is_final_response = False, content = None, actions = None, error_message = None\<rparr>]"
        and events = "[\<lparr>is_final_response = False, content = None, actions = None, error_message = None\<rparr>,
          \<lparr>is_final_response = False, content = None, actions = None, error_message = None\<rparr>]"
        and gen' = "[]" and query = "ascii ''hi''"
        and user_id = "ascii ''user_1''" and session_id = "ascii ''session_001''",
        THEN conjunct1]
    by (simp add: list_run_async_def list_anext_def)
  moreover have "call_agent_async (spec_run_async (list_startTurn []) ()) (spec_anext list_anext)
      (ascii ''hi'')
      \<lparr>applicationName = ascii ''Weather Agent Demo'', userId = ascii ''user_1'',
       sessionId = ascii ''session_001'', history = []\<rparr>
      (ascii ''user_1'') (ascii ''session_001'') =
      Some (Some ([0x26A0, 0xFE0F] @ ascii '' Agent kh'' @ [0xF4] @ ascii ''ng t'' @ [0x1EA1] @ ascii ''o ra response.''),
           \<lparr>session =
              \<lparr>applicationName = ascii ''Weather Agent Demo'', userId = ascii ''user_1'',
               sessionId = ascii ''session_001'', history = [Message UserRole (ascii ''hi'')]\<rparr>,
            engine = []\<rparr>)"
    using no_final_event_fallback [where next_event = list_anext
        and startTurn = "list_startTurn []" and agent = "()" and n = 0 and e' = "[]"
        and sess = "\<lparr>applicationName = ascii ''Weather Agent Demo'', userId = ascii ''user_1'',
          sessionId = ascii ''session_001'', history = []\<rparr>"
        and query = "ascii ''hi''"
        and user_id = "ascii ''user_1''" and session_id = "ascii ''session_001''",
        THEN conjunct2]
    by (simp add: list_startTurn_def list_anext_def)
  ultimately show ?thesis
    by blast
qed

text \<open>
  C6. On the runner of the specification, whatever the engine does, a call that returns
  leaves the session with its identity and with the history it had, followed by the one
  user message of the call, followed by at most one message, of role agent. The call
  returns whenever the engine, after any number of intermediate events, ends or emits a
  final or escalated event.
\<close>

theorem one_user_message_at_most_one_agent_message:
  "(call_agent_async (spec_run_async startTurn agent) (spec_anext next_event) query sess
        user_id session_id = Some (result, turn) \<longrightarrow>
      (\<exists>extra. session turn =
                 sess\<lparr>history := history sess @ [Message UserRole query] @ extra\<rparr> \<and>
               length extra \<le> 1 \<and> (\<forall>m\<in>set extra. role_of m = AgentRole))) \<and>
   (pulls next_event
      (startTurn agent (sess\<lparr>history := history sess @ [Message UserRole query]\<rparr>)
         (Message UserRole query))
      (replicate n Intermediate) = Some e' \<and>
    (next_event e' = None \<or> (\<exists>ev e''. next_event e' = Some (ev, e'') \<and> ev \<noteq> Intermediate)) \<longrightarrow>
      (\<exists>result turn.
         call_agent_async (spec_run_async startTurn agent) (spec_anext next_event) query sess
           user_id session_id = Some (result, turn)))"
proof (intro conjI impI)
  let ?sess = "sess\<lparr>history := history sess @ [Message UserRole query]\<rparr>"
  assume "call_agent_async (spec_run_async startTurn agent) (spec_anext next_event) query sess
        user_id session_id = Some (result, turn)"
  then have "call_agent_async_loop (spec_anext next_event)
      \<lparr>session = ?sess, engine = startTurn agent ?sess (Message UserRole query)\<rparr>
      (Some ([0x26A0, 0xFE0F] @ ascii '' Agent kh'' @ [0xF4] @ ascii ''ng t'' @ [0x1EA1]
             @ ascii ''o ra response.'')) = Some (result, turn)"
    by (simp add: call_agent_async_def spec_run_async_history)
  from spec_loop_history [OF this, of next_event]
  show "\<exists>extra. session turn =
                 sess\<lparr>history := history sess @ [Message UserRole query] @ extra\<rparr> \<and>
               length extra \<le> 1 \<and> (\<forall>m\<in>set extra. role_of m = AgentRole)"
    by simp
next
  let ?sess = "sess\<lparr>history := history sess @ [Message UserRole query]\<rparr>"
  let ?text = "Some ([0x26A0, 0xFE0F] @ ascii '' Agent kh'' @ [0xF4] @ ascii ''ng t'' @ [0x1EA1]
                    @ ascii ''o ra response.'')"
  assume hyps: "pulls next_event (startTurn agent ?sess (Message UserRole query))
      (replicate n Intermediate) = Some e' \<and>
    (next_event e' = None \<or> (\<exists>ev e''. next_event e' = Some (ev, e'') \<and> ev \<noteq> Intermediate))"
  then have engine: "pulls next_event (startTurn agent ?sess (Message UserRole query))
      (replicate n Intermediate) = Some e'"
    by blast
  have pulled: "pulls (spec_anext next_event)
      \<lparr>session = ?sess, engine = startTurn agent ?sess (Message UserRole query)\<rparr>
      (replicate n (to_event Intermediate)) = Some \<lparr>session = ?sess, engine = e'\<rparr>"
    using engine by (rule spec_pulls_intermediate)
  have skip: "call_agent_async_loop (spec_anext next_event)
      \<lparr>session = ?sess, engine = startTurn agent ?sess (Message UserRole query)\<rparr> ?text =
      call_agent_async_loop (spec_anext next_event) \<lparr>session = ?sess, engine = e'\<rparr> ?text"
    using pulled by (rule loop_skips) simp
  from hyps have "\<exists>y. call_agent_async_loop (spec_anext next_event)
      \<lparr>session = ?sess, engine = e'\<rparr> ?text = Some y"
  proof (elim conjE disjE exE)
    assume "next_event e' = None"
    then have "spec_anext next_event \<lparr>session = ?sess, engine = e'\<rparr> = None"
      by (simp add: spec_anext_def)
    then show ?thesis
      by (simp add: loop_exhausted)
  next
    fix ev e''
    assume "next_event e' = Some (ev, e'')" and "ev \<noteq> Intermediate"
    then obtain turn' where "spec_anext next_event \<lparr>session = ?sess, engine = e'\<rparr> =
        Some (to_event ev, turn')" and "is_final_response (to_event ev)"
      by (simp add: spec_anext_def to_event_final)
    then show ?thesis
      by (simp add: loop_final)
  qed
  with skip show "\<exists>result turn.
         call_agent_async (spec_run_async startTurn agent) (spec_anext next_event) query sess
           user_id session_id = Some (result, turn)"
    by (simp add: call_agent_async_def spec_run_async_history)
qed

theorem one_user_message_at_most_one_agent_message_witness:
  "call_agent_async
     (spec_run_async
        (list_startTurn [Intermediate, Intermediate, Final (Message AgentRole (ascii ''Hello!''))])
        ())
     (spec_anext list_anext) (ascii ''hello'')
     \<lparr>applicationName = ascii ''Weather Agent Demo'', userId = ascii ''user_1'',
      sessionId = ascii ''session_001'', history = []\<rparr>
     (ascii ''user_1'') (ascii ''session_001'') =
     Some (Some (ascii ''Hello!''),
           \<lparr>session =
              \<lparr>applicationName = ascii ''Weather Agent Demo'', userId = ascii ''user_1'',
               sessionId = ascii ''session_001'',
               history = [Message UserRole (ascii ''hello''),
                          Message AgentRole (ascii ''Hello!'')]\<rparr>,
            engine = []\<rparr>) \<and>
   (\<exists>extra.
      [Message UserRole (ascii ''hello''), Message AgentRole (ascii ''Hello!'')] =
        [] @ [Message UserRole (ascii ''hello'')] @ extra \<and>
      length extra \<le> 1)"
proof -
  let ?events = "[Intermediate, Intermediate, Final (Message AgentRole (ascii ''Hello!''))]"
  let ?sess = "\<lparr>applicationName = ascii ''Weather Agent Demo'', userId = ascii ''user_1'',
      sessionId = ascii ''session_001'', history = []\<rparr>"
  let ?run = "call_agent_async (spec_run_async (list_startTurn ?events) ())
      (spec_anext list_anext) (ascii ''hello'') ?sess (ascii ''user_1'') (ascii ''session_001'')"
  let ?turn = "\<lparr>session =
              \<lparr>applicationName = ascii ''Weather Agent Demo'', userId = ascii ''user_1'',
               sessionId = ascii ''session_001'',
               history = [Message UserRole (ascii ''hello''),
                          Message AgentRole (ascii ''Hello!'')]\<rparr>,
            engine = ([] :: SpecEvent list)\<rparr>"
  have "pulls list_anext ?events (replicate 2 Intermediate) =
      Some [Final (Message AgentRole (ascii ''Hello!''))]"
    by (simp add: list_anext_def numeral_2_eq_2)
  moreover have "list_anext [Final (Message AgentRole (ascii ''Hello!''))] =
      Some (Final (Message AgentRole (ascii ''Hello!'')), [])"
    by (simp add: list_anext_def)
  ultimately have "\<exists>result turn. ?run = Some (result, turn)"
    using one_user_message_at_most_one_agent_message [where next_event = list_anext
        and startTurn = "list_startTurn ?events" and agent = "()" and n = 2
        and e' = "[Final (Message AgentRole (ascii ''Hello!''))]"
        and sess = ?sess and query = "ascii ''hello''"
        and user_id = "ascii ''user_1''" and session_id = "ascii ''session_001''",
        THEN conjunct2]
    by (simp add: list_startTurn_def)
  have run: "?run = Some (Some (ascii ''Hello!''), ?turn)"
    by (simp add: call_agent_async_def spec_run_async_history list_startTurn_def
        call_agent_async_loop.simps spec_anext_def list_anext_def on_final_response_def
        content_parts_def)
  from one_user_message_at_most_one_agent_message [where next_event = list_anext
        and startTurn = "list_startTurn ?events" and agent = "()"
        and sess = ?sess and query = "ascii ''hello''"
        and user_id = "ascii ''user_1''" and session_id = "ascii ''session_001''"
        and result = "Some (ascii ''Hello!'')" and turn = ?turn,
        THEN conjunct1] run
  have "\<exists>extra. session ?turn =
      ?sess\<lparr>history := history ?sess @ [Message UserRole (ascii ''hello'')] @ extra\<rparr> \<and>
      length extra \<le> 1 \<and> (\<forall>m\<in>set extra. role_of m = AgentRole)"
    by blast
  then have "\<exists>extra.
      [Message UserRole (ascii ''hello''), Message AgentRole (ascii ''Hello!'')] =
        [] @ [Message UserRole (ascii ''hello'')] @ extra \<and>
      length extra \<le> 1"
    by auto
  with run show ?thesis
    by blast
qed

text \<open>
  C8. On the store of the specification, creating a session for an identity that the store
  already holds returns the session it holds, with its history, and leaves the store as it
  is; so a second creation after a first one changes nothing. The store that
  \<open>create_session_and_runner\<close> returns holds the session of its identity with an empty
  history, and creating it again there changes nothing.
\<close>

theorem create_session_idempotent:
  "(store (app_name, user_id, session_id) = Some existing \<longrightarrow>
      create_session store app_name user_id session_id = (existing, store)) \<and>
   (create_session store app_name user_id session_id = (created, store') \<longrightarrow>
      create_session store' app_name user_id session_id = (created, store')) \<and>
   (create_session_and_runner agent app_name_arg user_id_arg session_id_arg =
      (service, runner, uid, sid) \<longrightarrow>
      (\<exists>sess. service (runner_app_name runner, uid, sid) = Some sess \<and> history sess = [] \<and>
              create_session service (runner_app_name runner) uid sid = (sess, service)))"
proof (intro conjI impI)
  assume "store (app_name, user_id, session_id) = Some existing"
  then show "create_session store app_name user_id session_id = (existing, store)"
    by (simp add: create_session_def)
next
  assume "create_session store app_name user_id session_id = (created, store')"
  then show "create_session store' app_name user_id session_id = (created, store')"
    by (auto simp: create_session_def Let_def split: option.splits)
next
  assume "create_session_and_runner agent app_name_arg user_id_arg session_id_arg =
      (service, runner, uid, sid)"
  then show "\<exists>sess. service (runner_app_name runner, uid, sid) = Some sess \<and> history sess = [] \<and>
              create_session service (runner_app_name runner) uid sid = (sess, service)"
    by (auto simp: create_session_and_runner_def create_session_def InMemorySessionService_def
        Let_def)
qed

theorem create_session_idempotent_witness:
  "create_session
     (InMemorySessionService
        ((ascii ''Weather Agent Demo'', ascii ''user_1'', ascii ''session_001'') \<mapsto>
           \<lparr>applicationName = ascii ''Weather Agent Demo'', userId = ascii ''user_1'',
            sessionId = ascii ''session_001'',
            history = [Message UserRole (ascii ''hello''), Message AgentRole (ascii ''Hello!'')]\<rparr>))
     (ascii ''Weather Agent Demo'') (ascii ''user_1'') (ascii ''session_001'') =
     (\<lparr>applicationName = ascii ''Weather Agent Demo'', userId = ascii ''user_1'',
       sessionId = ascii ''session_001'',
       history = [Message UserRole (ascii ''hello''), Message AgentRole (ascii ''Hello!'')]\<rparr>,
      InMemorySessionService
        ((ascii ''Weather Agent Demo'', ascii ''user_1'', ascii ''session_001'') \<mapsto>
           \<lparr>applicationName = ascii ''Weather Agent Demo'', userId = ascii ''user_1'',
            sessionId = ascii ''session_001'',
            history = [Message UserRole (ascii ''hello''), Message AgentRole (ascii ''Hello!'')]\<rparr>)) \<and>
   create_session
     (snd (create_session InMemorySessionService
             (ascii ''Weather Agent Demo'') (ascii ''user_1'') (ascii ''session_001'')))
     (ascii ''Weather Agent Demo'') (ascii ''user_1'') (ascii ''session_001'') =
     create_session InMemorySessionService
       (ascii ''Weather Agent Demo'') (ascii ''user_1'') (ascii ''session_001'') \<and>
   (\<exists>sess. create_session (fst (create_session_and_runner () None None None))
             (ascii ''Weather Agent Demo'') (ascii ''user_1'') (ascii ''session_001'') =
             (sess, fst (create_session_and_runner () None None None)) \<and>
           history sess = [])"
proof -
  let ?A = "ascii ''Weather Agent Demo''" and ?U = "ascii ''user_1''"
    and ?S = "ascii ''session_001''"
  let ?sess = "\<lparr>applicationName = ?A, userId = ?U, sessionId = ?S,
      history = [Message UserRole (ascii ''hello''), Message AgentRole (ascii ''Hello!'')]\<rparr>"
  have first: "create_session (InMemorySessionService((?A, ?U, ?S) \<mapsto> ?sess)) ?A ?U ?S =
      (?sess, InMemorySessionService((?A, ?U, ?S) \<mapsto> ?sess))"
    using create_session_idempotent [where store = "InMemorySessionService((?A, ?U, ?S) \<mapsto> ?sess)"
        and app_name = ?A and user_id = ?U and session_id = ?S and existing = ?sess,
        THEN conjunct1]
    by simp
  have second: "create_session (snd (create_session InMemorySessionService ?A ?U ?S)) ?A ?U ?S =
      create_session InMemorySessionService ?A ?U ?S"
    using create_session_idempotent [where store = InMemorySessionService
        and app_name = ?A and user_id = ?U and session_id = ?S
        and created = "fst (create_session InMemorySessionService ?A ?U ?S)"
        and store' = "snd (create_session InMemorySessionService ?A ?U ?S)",
        THEN conjunct2, THEN conjunct1]
    by simp
  obtain service runner uid sid where made:
    "create_session_and_runner () None None None = (service, runner, uid, sid)"
    by (cases "create_session_and_runner () None None None") blast
  then have "runner_app_name runner = ?A" and "uid = ?U" and "sid = ?S"
    by (auto simp: create_session_and_runner_def Let_def split: prod.splits)
  with made create_session_idempotent [where agent = "()" and app_name_arg = None
      and user_id_arg = None and session_id_arg = None and service = service and runner = runner
      and uid = uid and sid = sid, THEN conjunct2, THEN conjunct2]
  have third: "\<exists>sess. create_session (fst (create_session_and_runner () None None None))
      ?A ?U ?S = (sess, fst (create_session_and_runner () None None None)) \<and> history sess = []"
    by auto
  from first second third show ?thesis
    by blast
qed

end
